theory Spec2Isabelle
  imports Main
begin

section \<open>Wire vocabulary and constants (greeclimate/device.py)\<close>

text \<open>
  The enumeration \<open>Props\<close> and the wire key of each member (\<open>Props.X.value\<close>).
\<close>

datatype Props =
    POWER | MODE
  | HUM_SET | HUM_SENSOR | CLEAN_FILTER | WATER_FULL | DEHUMIDIFIER_MODE
  | TEMP_SET | TEMP_SENSOR | TEMP_UNIT | TEMP_BIT | FAN_SPEED | FRESH_AIR | XFAN | ANION
  | SLEEP | SLEEP_MODE | LIGHT | SWING_HORIZ | SWING_VERT | QUIET | TURBO | STEADY_HEAT
  | POWER_SAVE | UNKNOWN_HEATCOOLTYPE

fun Props_value :: "Props \<Rightarrow> string" where
  "Props_value POWER = ''Pow''"
| "Props_value MODE = ''Mod''"
| "Props_value HUM_SET = ''Dwet''"
| "Props_value HUM_SENSOR = ''DwatSen''"
| "Props_value CLEAN_FILTER = ''Dfltr''"
| "Props_value WATER_FULL = ''DwatFul''"
| "Props_value DEHUMIDIFIER_MODE = ''Dmod''"
| "Props_value TEMP_SET = ''SetTem''"
| "Props_value TEMP_SENSOR = ''TemSen''"
| "Props_value TEMP_UNIT = ''TemUn''"
| "Props_value TEMP_BIT = ''TemRec''"
| "Props_value FAN_SPEED = ''WdSpd''"
| "Props_value FRESH_AIR = ''Air''"
| "Props_value XFAN = ''Blo''"
| "Props_value ANION = ''Health''"
| "Props_value SLEEP = ''SwhSlp''"
| "Props_value SLEEP_MODE = ''SlpMod''"
| "Props_value LIGHT = ''Lig''"
| "Props_value SWING_HORIZ = ''SwingLfRig''"
| "Props_value SWING_VERT = ''SwUpDn''"
| "Props_value QUIET = ''Quiet''"
| "Props_value TURBO = ''Tur''"
| "Props_value STEADY_HEAT = ''StHt''"
| "Props_value POWER_SAVE = ''SvSt''"
| "Props_value UNKNOWN_HEATCOOLTYPE = ''HeatCoolType''"

text \<open>The members of \<open>Props\<close> in declaration order, as \<open>[x.value for x in Props]\<close> visits them.\<close>

definition all_Props :: "Props list" where
  "all_Props =
     [POWER, MODE, HUM_SET, HUM_SENSOR, CLEAN_FILTER, WATER_FULL, DEHUMIDIFIER_MODE,
      TEMP_SET, TEMP_SENSOR, TEMP_UNIT, TEMP_BIT, FAN_SPEED, FRESH_AIR, XFAN, ANION,
      SLEEP, SLEEP_MODE, LIGHT, SWING_HORIZ, SWING_VERT, QUIET, TURBO, STEADY_HEAT,
      POWER_SAVE, UNKNOWN_HEATCOOLTYPE]"

definition TEMP_MIN :: int where "TEMP_MIN = 8"
definition TEMP_MAX :: int where "TEMP_MAX = 30"
definition TEMP_OFFSET :: int where "TEMP_OFFSET = 40"
definition TEMP_MIN_F :: int where "TEMP_MIN_F = 46"
definition TEMP_MAX_F :: int where "TEMP_MAX_F = 86"
definition TEMP_MIN_TABLE :: int where "TEMP_MIN_TABLE = -60"
definition TEMP_MAX_TABLE :: int where "TEMP_MAX_TABLE = 60"
definition TEMP_MIN_TABLE_F :: int where "TEMP_MIN_TABLE_F = -76"
definition TEMP_MAX_TABLE_F :: int where "TEMP_MAX_TABLE_F = 140"
definition HUMIDITY_MIN :: int where "HUMIDITY_MIN = 30"
definition HUMIDITY_MAX :: int where "HUMIDITY_MAX = 80"

text \<open>\<open>TemperatureUnits.C\<close> and \<open>TemperatureUnits.F\<close> as the integers the wire carries.\<close>

definition TemperatureUnits_C :: int where "TemperatureUnits_C = 0"
definition TemperatureUnits_F :: int where "TemperatureUnits_F = 1"

section \<open>The temperature table\<close>

text \<open>
  Python's \<open>round(n / k)\<close> for an integer \<open>n\<close> and a positive integer \<open>k\<close>: the nearest
  integer, a tie going to the even neighbour.
\<close>

definition py_round_div :: "int \<Rightarrow> int \<Rightarrow> int" where
  "py_round_div n k =
     (let q = n div k; r = n mod k
      in if 2 * r < k then q
         else if 2 * r > k then q + 1
         else if even q then q else q + 1)"

text \<open>
  One row of \<open>TEMP_TABLE\<close>: the dictionary with the keys \<open>"f"\<close>, \<open>"temSet"\<close> and
  \<open>"temRec"\<close>.
\<close>

record temperature_record =
  rec_f :: int
  rec_temSet :: int
  rec_temRec :: int

text \<open>
  \<open>generate_temperature_record\<close>. The source evaluates \<open>(temp_f - 32.0) * 5.0 / 9.0\<close> in
  binary floating point. For an integer \<open>temp_f\<close> the product \<open>(temp_f - 32) * 5\<close> is exact and
  the quotient by nine is either an integer or at least one ninth away from every integer, so
  the rounding and the sign test come out as in exact arithmetic, which is what is written
  here: \<open>temSet\<close> is the rounded quotient and \<open>temRec\<close> is 1 exactly when the quotient
  exceeds it.
\<close>

definition generate_temperature_record :: "int \<Rightarrow> temperature_record" where
  "generate_temperature_record temp_f =
     (let n = (temp_f - 32) * 5;
          temSet = py_round_div n 9;
          temRec = (if n > 9 * temSet then 1 else 0)
      in \<lparr>rec_f = temp_f, rec_temSet = temSet, rec_temRec = temRec\<rparr>)"

definition TEMP_TABLE :: "temperature_record list" where
  "TEMP_TABLE = map generate_temperature_record [TEMP_MIN_TABLE_F..TEMP_MAX_TABLE_F]"

section \<open>The device\<close>

datatype error =
    ValueError | TypeError | IndexError
  | TimeoutError | DeviceNotBoundError | DeviceTimeoutError | UpdateFailed

datatype cipher_kind = CipherV1 | CipherV2

text \<open>A cipher object: its class and its \<open>key\<close> attribute.\<close>

record cipher =
  kind :: cipher_kind
  key :: string

text \<open>\<open>DeviceInfo\<close>, with the attributes the sources read.\<close>

record DeviceInfo =
  ip :: string
  port :: nat
  mac :: string
  name :: string

text \<open>What the device hands to \<open>send\<close>: a bind request under a trial cipher, a status
  request for a list of keys, or a command with its key/value pairs in dictionary order.\<close>

datatype packet =
    BindMessage cipher_kind
  | StatusMessage "string list"
  | CommandMessage "(string \<times> int option) list"

text \<open>
  The attributes of a \<open>Device\<close>. Property values are Python integers (the setters store
  \<open>int(value)\<close>, the unit reports numbers); \<open>properties\<close> is \<open>_properties\<close>, \<open>dirty\<close> is
  \<open>_dirty\<close>, \<open>beep\<close> is \<open>_beep\<close>, \<open>transport\<close> says whether \<open>_transport\<close> is set.
  \<open>outbox\<close> is not an attribute: it records, in order, every message passed to
  \<open>send\<close>, so that network activity is visible in the state.
\<close>

record Device =
  device_info :: "DeviceInfo option"
  device_cipher :: "cipher option"
  transport :: bool
  hid :: "string option"
  version :: "string option"
  check_version :: bool
  properties :: "string \<rightharpoonup> int"
  dirty :: "string list"
  beep :: bool
  outbox :: "packet list"

subsection \<open>Generic property access\<close>

text \<open>\<open>get_property\<close>: \<open>dict.get\<close> on a non-empty store, \<open>None\<close> on an empty one; both
  are the map lookup. It assigns to nothing, so it is a function of the device alone.\<close>

definition get_property :: "Device \<Rightarrow> Props \<Rightarrow> int option" where
  "get_property d n = properties d (Props_value n)"

text \<open>\<open>set_property\<close>. Replacing an empty store by \<open>{}\<close> changes nothing.\<close>

definition set_property :: "Device \<Rightarrow> Props \<Rightarrow> int \<Rightarrow> Device" where
  "set_property d n v =
     (if properties d (Props_value n) = Some v then d
      else d\<lparr>properties := (properties d)(Props_value n \<mapsto> v),
             dirty := (if Props_value n \<in> set (dirty d) then dirty d
                       else dirty d @ [Props_value n])\<rparr>)"

subsection \<open>Boolean accessors\<close>

text \<open>\<open>bool(x)\<close> for \<open>x\<close> an integer or \<open>None\<close>.\<close>

definition py_bool :: "int option \<Rightarrow> bool" where
  "py_bool x = (case x of None \<Rightarrow> False | Some v \<Rightarrow> v \<noteq> 0)"

definition power_prop :: "Device \<Rightarrow> bool" where
  \<comment> \<open>the property \<open>power\<close>\<close>
  "power_prop d = py_bool (get_property d POWER)"

definition fresh_air :: "Device \<Rightarrow> bool" where
  "fresh_air d = py_bool (get_property d FRESH_AIR)"

definition xfan :: "Device \<Rightarrow> bool" where
  "xfan d = py_bool (get_property d XFAN)"

definition anion :: "Device \<Rightarrow> bool" where
  "anion d = py_bool (get_property d ANION)"

definition sleep :: "Device \<Rightarrow> bool" where
  "sleep d = py_bool (get_property d SLEEP)"

definition light :: "Device \<Rightarrow> bool" where
  "light d = py_bool (get_property d LIGHT)"

definition turbo :: "Device \<Rightarrow> bool" where
  "turbo d = py_bool (get_property d TURBO)"

definition steady_heat :: "Device \<Rightarrow> bool" where
  "steady_heat d = py_bool (get_property d STEADY_HEAT)"

definition power_save :: "Device \<Rightarrow> bool" where
  "power_save d = py_bool (get_property d POWER_SAVE)"

definition clean_filter :: "Device \<Rightarrow> bool" where
  "clean_filter d = py_bool (get_property d CLEAN_FILTER)"

definition water_full :: "Device \<Rightarrow> bool" where
  "water_full d = py_bool (get_property d WATER_FULL)"

subsection \<open>Humidity\<close>

text \<open>
  The getter \<open>target_humidity\<close> evaluates \<open>15 + (self.get_property(Props.HUM_SET) * 5)\<close>
  as an expression statement and falls off the end of the function: the product raises
  \<open>TypeError\<close> on \<open>None\<close>, and otherwise the value is discarded and the result is \<open>None\<close>.
\<close>

definition target_humidity :: "Device \<Rightarrow> error + int option" where
  "target_humidity d =
     (case get_property d HUM_SET of
        None \<Rightarrow> Inl TypeError
      | Some h \<Rightarrow> (let computed = 15 + h * 5 in Inr None))"

text \<open>A freshly constructed \<open>Device\<close> (\<open>__init__\<close>), for a given \<open>device_info\<close>.\<close>

definition new_Device :: "DeviceInfo option \<Rightarrow> Device" where
  "new_Device info =
     \<lparr>device_info = info, device_cipher = None, transport = False, hid = None,
      version = None, check_version = True, properties = Map.empty, dirty = [],
      beep = False, outbox = []\<rparr>"

subsection \<open>Firmware identity\<close>

definition is_digit :: "char \<Rightarrow> bool" where
  "is_digit c = (c \<in> set ''0123456789'')"

definition is_version_char :: "char \<Rightarrow> bool" where
  \<comment> \<open>the character class \<open>[\d.]\<close>\<close>
  "is_version_char c = (is_digit c \<or> c = CHR ''.'')"

text \<open>
  \<open>re.search(r"(?<=V)([\d.]+)\.bin$", hid)\<close> followed by \<open>match and match.group(1)\<close>.
  The dollar sign matches at the end of the string or before a final newline, so the string
  (less one final newline) has to end in \<open>.bin\<close>. The group is a non-empty run of digits and
  dots reaching up to that suffix and preceded by \<open>V\<close>; since \<open>V\<close> is neither digit nor dot,
  the run is the longest one, and the match is unique. Strings are byte strings, so \<open>\d\<close>
  is an ASCII digit.
\<close>

definition version_of_hid :: "string \<Rightarrow> string option" where
  "version_of_hid h =
     (let s = (if h \<noteq> [] \<and> last h = CHR 0x0A then butlast h else h);
          n = length s
      in if n < 4 \<or> drop (n - 4) s \<noteq> ''.bin'' then None
         else let body = take (n - 4) s;
                  grp = rev (takeWhile is_version_char (rev body));
                  pre = rev (dropWhile is_version_char (rev body))
              in if grp \<noteq> [] \<and> pre \<noteq> [] \<and> last pre = CHR ''V'' then Some grp else None)"

text \<open>
  \<open>int(s)\<close> on a string of decimal digits; anything else is reported as \<open>ValueError\<close>.
  The version strings a \<open>Device\<close> stores are the regular expression's group or the literal
  \<open>4.0\<close>: digits and dots only, so each dot-separated component is a (possibly empty) run of
  digits, and on those this is Python's \<open>int\<close>.
\<close>

definition py_int :: "string \<Rightarrow> error + int" where
  "py_int s =
     (if s \<noteq> [] \<and> list_all is_digit s
      then Inr (foldl (\<lambda>a c. 10 * a + (of_char c - 48)) 0 s)
      else Inl ValueError)"

text \<open>
  The local \<open>v = self.version and int(self.version.split(".")[0])\<close> of
  \<open>current_temperature\<close>. A missing or empty version leaves \<open>v\<close> falsy (written \<open>None\<close>
  here: it is only compared with 4); otherwise \<open>int\<close> may raise.
\<close>

definition version_major :: "Device \<Rightarrow> error + int option" where
  "version_major d =
     (case version d of
        None \<Rightarrow> Inr None
      | Some s \<Rightarrow>
          if s = [] then Inr None
          else (case py_int (takeWhile (\<lambda>c. c \<noteq> CHR ''.'') s) of
                  Inl e \<Rightarrow> Inl e
                | Inr n \<Rightarrow> Inr (Some n)))"

subsection \<open>Temperature\<close>

definition temperature_units :: "Device \<Rightarrow> int option" where
  "temperature_units d = get_property d TEMP_UNIT"

text \<open>
  \<open>_convert_to_units\<close>. Comparing \<open>None\<close> with an integer raises \<open>TypeError\<close>;
  \<open>matching_temset[0]\<close> on an empty list raises \<open>IndexError\<close>. \<open>next\<close> takes the first
  row of \<open>matching_temset\<close> whose \<open>temRec\<close> equals \<open>bit\<close> (the argument \<open>tbit\<close>
  here).
\<close>

definition convert_to_units :: "Device \<Rightarrow> int option \<Rightarrow> int option \<Rightarrow> error + int option" where
  "convert_to_units d val tbit =
     (if temperature_units d \<noteq> Some TemperatureUnits_F then Inr val
      else case val of
        None \<Rightarrow> Inl TypeError
      | Some v \<Rightarrow>
          if v < TEMP_MIN_TABLE \<or> v > TEMP_MAX_TABLE then Inl ValueError
          else let matching_temset = filter (\<lambda>t. rec_temSet t = v) TEMP_TABLE
               in case find (\<lambda>t. Some (rec_temRec t) = tbit) matching_temset of
                    Some t \<Rightarrow> Inr (Some (rec_f t))
                  | None \<Rightarrow>
                      (case matching_temset of
                         [] \<Rightarrow> Inl IndexError
                       | t # _ \<Rightarrow> Inr (Some (rec_f t))))"

definition target_temperature :: "Device \<Rightarrow> error + int option" where
  "target_temperature d =
     convert_to_units d (get_property d TEMP_SET) (get_property d TEMP_BIT)"

text \<open>The local function \<open>validate\<close> of the setter: the error it raises, if any.\<close>

definition validate :: "int \<Rightarrow> error option" where
  "validate val = (if val > TEMP_MAX \<or> val < TEMP_MIN then Some ValueError else None)"

text \<open>
  The setter of \<open>target_temperature\<close>: the error raised, if any, and the device as the
  setter leaves it.
\<close>

definition set_target_temperature :: "Device \<Rightarrow> int \<Rightarrow> error option \<times> Device" where
  "set_target_temperature d val =
     (if temperature_units d = Some 1 then
        (let r = generate_temperature_record val
         in case validate (rec_temSet r) of
              Some e \<Rightarrow> (Some e, d)
            | None \<Rightarrow>
                (None, set_property (set_property d TEMP_SET (rec_temSet r))
                         TEMP_BIT (rec_temRec r)))
      else
        (case validate val of
           Some e \<Rightarrow> (Some e, d)
         | None \<Rightarrow> (None, set_property d TEMP_SET val)))"

text \<open>The \<open>try\<close> block of \<open>current_temperature\<close>: a \<open>ValueError\<close> is logged and control
  reaches the final \<open>return self.target_temperature\<close>; any other result leaves the getter.\<close>

definition or_target_temperature :: "Device \<Rightarrow> error + int option \<Rightarrow> error + int option" where
  "or_target_temperature d r = (if r = Inl ValueError then target_temperature d else r)"

definition current_temperature :: "Device \<Rightarrow> error + int option" where
  "current_temperature d =
     (let prop = get_property d TEMP_SENSOR;
          tbit = get_property d TEMP_BIT
      in case prop of
           None \<Rightarrow> target_temperature d
         | Some p \<Rightarrow>
             (case version_major d of
                Inl e \<Rightarrow> Inl e
              | Inr v \<Rightarrow>
                  if v = Some 4 then or_target_temperature d (convert_to_units d (Some p) tbit)
                  else if p \<noteq> 0 then
                    or_target_temperature d (convert_to_units d (Some (p - TEMP_OFFSET)) tbit)
                  else target_temperature d))"

subsection \<open>Status responses\<close>

text \<open>
  \<open>handle_state_update(**kwargs)\<close>. The keyword \<open>hid\<close> carries a string and is popped first;
  it is the argument \<open>hid_arg\<close> here, and \<open>kwargs\<close> is the rest. The last statement formats
  \<open>self.current_temperature\<close> into a log line, so an error of that getter leaves the handler
  after the state has been updated.
\<close>

definition handle_state_update ::
    "Device \<Rightarrow> string option \<Rightarrow> (string \<rightharpoonup> int) \<Rightarrow> error option \<times> Device" where
  "handle_state_update d hid_arg kwargs =
     (let d1 = (case hid_arg of
                  None \<Rightarrow> d
                | Some h \<Rightarrow> d\<lparr>hid := Some h, version := version_of_hid h\<rparr>);
          d2 = d1\<lparr>properties := properties d1 ++ kwargs\<rparr>
      in if check_version d2 \<and> kwargs (Props_value TEMP_SENSOR) \<noteq> None then
           (let d3 = d2\<lparr>check_version := False\<rparr>;
                d4 = (case get_property d3 TEMP_SENSOR of
                        None \<Rightarrow> d3
                      | Some temp \<Rightarrow>
                          if temp \<noteq> 0 \<and> temp < TEMP_OFFSET
                          then d3\<lparr>version := Some ''4.0''\<rparr> else d3)
            in (case current_temperature d4 of Inl e \<Rightarrow> Some e | Inr _ \<Rightarrow> None, d4))
         else (None, d2))"

section \<open>Binding and pushing\<close>

text \<open>
  Modelled from the spec: the transport layer (\<open>greeclimate/network.py\<close>, which provides
  \<open>send\<close>, the \<open>ready\<close> event and the \<open>device_cipher\<close> attribute) is not among the
  sources. Following the spec, sending is asynchronous and every network wait carries a
  timeout; a bind confirmation resolves the pending wait, and a successful negotiation sets the
  device's cipher. The network is therefore a parameter that answers, from the messages sent
  so far,
  \<^item> \<open>drained\<close>: whether the wait inside \<open>send\<close> completes (otherwise \<open>send\<close> raises
    \<open>asyncio.TimeoutError\<close>, written \<open>TimeoutError\<close>);
  \<^item> \<open>ready\<close>: whether the wait for the \<open>ready\<close> event completes within the bind timeout,
    and if it does, the value \<open>device_cipher\<close> has afterwards (\<open>None\<close> when the confirmation
    designated nothing).
\<close>

datatype bind_reply = NoConfirmation | Confirmed "cipher option"

record network =
  drained :: "packet list \<Rightarrow> bool"
  ready :: "packet list \<Rightarrow> bind_reply"

definition send :: "network \<Rightarrow> Device \<Rightarrow> packet \<Rightarrow> error option \<times> Device" where
  "send net d pkt =
     (let d' = d\<lparr>outbox := outbox d @ [pkt]\<rparr>
      in (if drained net (outbox d') then None else Some TimeoutError, d'))"

text \<open>\<open>__bind_internal\<close>: send the bind message under the trial cipher, then wait for
  \<open>ready\<close> with \<open>wait_for\<close>.\<close>

definition bind_internal :: "network \<Rightarrow> Device \<Rightarrow> cipher_kind \<Rightarrow> error option \<times> Device" where
  "bind_internal net d ck =
     (case send net d (BindMessage ck) of
        (Some e, d1) \<Rightarrow> (Some e, d1)
      | (None, d1) \<Rightarrow>
          (case ready net (outbox d1) of
             NoConfirmation \<Rightarrow> (Some TimeoutError, d1)
           | Confirmed c \<Rightarrow> (None, d1\<lparr>device_cipher := c\<rparr>)))"

text \<open>
  The body of the outer \<open>try\<close> of \<open>bind\<close>: with a cipher given, one attempt under it;
  otherwise an attempt under \<open>CipherV1\<close> and, if that raises \<open>asyncio.TimeoutError\<close>, an
  attempt under \<open>CipherV2\<close>.
\<close>

definition bind_attempts :: "network \<Rightarrow> Device \<Rightarrow> cipher option \<Rightarrow> error option \<times> Device" where
  "bind_attempts net d cipher_arg =
     (case cipher_arg of
        Some c \<Rightarrow> bind_internal net d (kind c)
      | None \<Rightarrow>
          (let (r1, d') = bind_internal net d CipherV1
           in if r1 = Some TimeoutError then bind_internal net d' CipherV2
              else (r1, d')))"

text \<open>
  \<open>bind(key, cipher)\<close>. A key is truthy when it is a non-empty string. In the negotiated
  mode the transport is opened if it is not open yet, and the outer \<open>try\<close> turns a timeout
  that is left into \<open>DeviceTimeoutError\<close>.
\<close>

definition bind :: "network \<Rightarrow> Device \<Rightarrow> string option \<Rightarrow> cipher option \<Rightarrow> error option \<times> Device" where
  "bind net d key_arg cipher_arg =
     (case (if key_arg = Some [] then None else key_arg) of
        Some k \<Rightarrow>
          (case cipher_arg of
             None \<Rightarrow> (Some ValueError, d)
           | Some c \<Rightarrow> (None, d\<lparr>device_cipher := Some (c\<lparr>key := k\<rparr>)\<rparr>))
      | None \<Rightarrow>
          if device_info d = None then (Some DeviceNotBoundError, d)
          else
            (let (r, d1) = bind_attempts net (d\<lparr>transport := True\<rparr>) cipher_arg
             in if r = Some TimeoutError then (Some DeviceTimeoutError, d1)
                else if r \<noteq> None then (r, d1)
                else if device_cipher d1 = None then (Some DeviceNotBoundError, d1)
                else (None, d1)))"

text \<open>The opening of \<open>update_state\<close> and \<open>push_state_update\<close>:
  \<open>if not self.device_cipher: await self.bind()\<close>.\<close>

definition bind_if_needed :: "network \<Rightarrow> Device \<Rightarrow> error option \<times> Device" where
  "bind_if_needed net d = (if device_cipher d = None then bind net d None None else (None, d))"

definition update_state :: "network \<Rightarrow> Device \<Rightarrow> error option \<times> Device" where
  "update_state net d =
     (let (r, d1) = bind_if_needed net d
      in if r \<noteq> None then (r, d1)
         else
           (let props = map Props_value all_Props
                          @ (if hid d1 = None \<or> hid d1 = Some [] then [''hid''] else []);
                (r2, d2) = send net d1 (StatusMessage props)
            in if r2 = Some TimeoutError then (Some DeviceTimeoutError, d2) else (r2, d2)))"

text \<open>Assignment \<open>props[k] = v\<close> on a dictionary kept as its list of items in insertion
  order.\<close>

fun dict_set :: "('k \<times> 'v) list \<Rightarrow> 'k \<Rightarrow> 'v \<Rightarrow> ('k \<times> 'v) list" where
  "dict_set [] k v = [(k, v)]"
| "dict_set ((k', v') # kvs) k v =
     (if k' = k then (k, v) # kvs else (k', v') # dict_set kvs k v)"

text \<open>The body of the loop over \<open>_dirty\<close> in \<open>push_state_update\<close>.\<close>

definition push_prop ::
    "Device \<Rightarrow> (string \<times> int option) list \<Rightarrow> string \<Rightarrow> (string \<times> int option) list" where
  "push_prop d props nm =
     (let props1 = dict_set props nm (properties d nm)
      in if nm = Props_value TEMP_SET then
           dict_set
             (dict_set props1 (Props_value TEMP_BIT) (properties d (Props_value TEMP_BIT)))
             (Props_value TEMP_UNIT) (properties d (Props_value TEMP_UNIT))
         else props1)"

definition push_state_update :: "network \<Rightarrow> Device \<Rightarrow> error option \<times> Device" where
  "push_state_update net d =
     (if dirty d = [] then (None, d)
      else
        (let (r, d1) = bind_if_needed net d
         in if r \<noteq> None then (r, d1)
            else
              (let props = foldl (push_prop d1) [] (dirty d1);
                   props' = (if \<not> beep d1 then dict_set props ''Buzzer_ON_OFF'' (Some 1)
                             else props);
                   d2 = d1\<lparr>dirty := []\<rparr>;
                   (r3, d3) = send net d2 (CommandMessage props')
               in if r3 = Some TimeoutError then (Some DeviceTimeoutError, d3)
                  else (r3, d3))))"

text \<open>Two networks: one on which no wait ever completes (the unit is off line), and one on
  which every wait completes and a bind confirmation designates the given cipher.\<close>

definition silent_network :: network where
  "silent_network = \<lparr>drained = (\<lambda>_. False), ready = (\<lambda>_. NoConfirmation)\<rparr>"

definition answering_network :: "cipher option \<Rightarrow> network" where
  "answering_network c = \<lparr>drained = (\<lambda>_. True), ready = (\<lambda>_. Confirmed c)\<rparr>"

definition example_info :: DeviceInfo where
  "example_info = \<lparr>ip = ''192.168.1.29'', port = 7000, mac = ''f4911e7aca59'', name = ''ac''\<rparr>"

section \<open>The polling coordinator (coordinator.py)\<close>

text \<open>
  The module \<open>const.py\<close> is not among the sources; its three numbers are parameters. They
  are in seconds, clock readings are in microseconds.
\<close>

record settings =
  MAX_ERRORS :: int
  MAX_EXPECTED_RESPONSE_TIME_INTERVAL :: int
  UPDATE_INTERVAL :: int

definition timedelta_seconds :: "int \<Rightarrow> int" where
  "timedelta_seconds s = s * 1000000"

text \<open>
  The attributes of \<open>DeviceDataUpdateCoordinator\<close> that the read path uses.
  \<open>update_interval\<close> and \<open>last_update_success\<close> are inherited from the host framework's
  coordinator class; an interval is truthy when it is set and not zero.
\<close>

record Coordinator =
  device :: Device
  update_interval :: "int option"
  last_update_success :: bool
  error_count :: int
  last_response_time :: int
  last_error_time :: "int option"

definition new_Coordinator :: "settings \<Rightarrow> int \<Rightarrow> Device \<Rightarrow> Coordinator" where
  "new_Coordinator K now dev =
     \<lparr>device = dev,
      update_interval = Some (timedelta_seconds (UPDATE_INTERVAL K)),
      last_update_success = True,
      error_count = 0,
      last_response_time = now,
      last_error_time = None\<rparr>"

text \<open>\<open>device_state_updated\<close>; \<open>async_set_updated_data\<close> of the host framework records a
  successful update.\<close>

definition device_state_updated :: "int \<Rightarrow> Coordinator \<Rightarrow> Coordinator" where
  "device_state_updated now c =
     c\<lparr>error_count := 0, last_response_time := now, last_update_success := True\<rparr>"

text \<open>The staleness branch: \<open>self.update_interval and elapsed_success >= timedelta(...)\<close>.\<close>

definition stale :: "settings \<Rightarrow> int \<Rightarrow> Coordinator \<Rightarrow> bool" where
  "stale K now c =
     (case update_interval c of
        None \<Rightarrow> False
      | Some i \<Rightarrow>
          i \<noteq> 0 \<and> now - last_response_time c
                    \<ge> timedelta_seconds (MAX_EXPECTED_RESPONSE_TIME_INTERVAL K))"

text \<open>The guard \<open>not self._last_error_time or (now - self.update_interval) >=
  self._last_error_time\<close>, reached only where the interval is set.\<close>

definition count_stale :: "int \<Rightarrow> Coordinator \<Rightarrow> bool" where
  "count_stale now c =
     (case last_error_time c of
        None \<Rightarrow> True
      | Some t \<Rightarrow> (case update_interval c of None \<Rightarrow> False | Some i \<Rightarrow> now - i \<ge> t))"

text \<open>The tail of \<open>_async_update_data\<close>: stamp the response time and return a copy of the
  raw properties.\<close>

definition finish :: "int \<Rightarrow> Coordinator \<Rightarrow> (error + (string \<rightharpoonup> int)) \<times> Coordinator" where
  "finish fin c = (Inr (properties (device c)), c\<lparr>last_response_time := fin\<rparr>)"

text \<open>
  \<open>_async_update_data\<close>. \<open>now\<close> is the clock reading taken in the \<open>else\<close> branch, \<open>fin\<close> the
  one taken by the last assignment.
\<close>

definition async_update_data ::
    "settings \<Rightarrow> network \<Rightarrow> int \<Rightarrow> int \<Rightarrow> Coordinator
       \<Rightarrow> (error + (string \<rightharpoonup> int)) \<times> Coordinator" where
  "async_update_data K net now fin c =
     (let (r, d') = update_state net (device c);
          c0 = c\<lparr>device := d'\<rparr>
      in if r = Some DeviceNotBoundError then (Inl UpdateFailed, c0)
         else if r = Some DeviceTimeoutError then
           (let c1 = c0\<lparr>error_count := error_count c0 + 1\<rparr>
            in if last_update_success c1 \<and> error_count c1 \<ge> MAX_ERRORS K
               then (Inl UpdateFailed, c1)
               else finish fin c1)
         else case r of
           Some e \<Rightarrow> (Inl e, c0)
         | None \<Rightarrow>
             (let c1 = (if stale K now c0 then
                          (if count_stale now c0
                           then c0\<lparr>last_error_time := Some now,
                                   error_count := error_count c0 + 1\<rparr>
                           else c0)
                        else c0\<lparr>error_count := 0\<rparr>)
              in if last_update_success c1 \<and> error_count c1 \<ge> MAX_ERRORS K
                 then (Inl UpdateFailed, c1)
                 else finish fin c1))"

text \<open>
  Modelled from the spec: the host framework's refresh step, which calls
  \<open>_async_update_data\<close> and keeps the read-health flag \<open>last_update_success\<close>, is not among
  the sources. Following the spec, a cycle that reports a failure moves read-health to failed,
  and the next successful cycle clears the failed state.
\<close>

definition async_refresh :: "settings \<Rightarrow> network \<Rightarrow> int \<Rightarrow> int \<Rightarrow> Coordinator \<Rightarrow> Coordinator" where
  "async_refresh K net now fin c =
     (case async_update_data K net now fin c of
        (Inl e, c') \<Rightarrow> c'\<lparr>last_update_success := False\<rparr>
      | (Inr data, c') \<Rightarrow> c'\<lparr>last_update_success := True\<rparr>)"

text \<open>A coordinator for a bound device, with an error threshold of three, a polling interval
  of 60 seconds and a longest expected response interval of 120 seconds.\<close>

definition example_settings :: settings where
  "example_settings =
     \<lparr>MAX_ERRORS = 3, MAX_EXPECTED_RESPONSE_TIME_INTERVAL = 120, UPDATE_INTERVAL = 60\<rparr>"

definition bound_device :: Device where
  "bound_device =
     (new_Device (Some example_info))\<lparr>device_cipher := Some \<lparr>kind = CipherV1, key = ''k''\<rparr>\<rparr>"

definition example_coordinator :: Coordinator where
  "example_coordinator = new_Coordinator example_settings 0 bound_device"

section \<open>Properties\<close>

lemmas temp_consts =
  TEMP_MIN_def TEMP_MAX_def TEMP_OFFSET_def TEMP_MIN_F_def TEMP_MAX_F_def
  TEMP_MIN_TABLE_def TEMP_MAX_TABLE_def TEMP_MIN_TABLE_F_def TEMP_MAX_TABLE_F_def
  TemperatureUnits_C_def TemperatureUnits_F_def

lemmas bool_accessors =
  power_prop_def fresh_air_def xfan_def anion_def sleep_def light_def turbo_def
  steady_heat_def power_save_def clean_filter_def water_full_def

subsection \<open>Dirty tracking\<close>

lemma count_list_distinct_mem: "distinct xs \<Longrightarrow> x \<in> set xs \<Longrightarrow> count_list xs x = 1"
  by (induction xs) (auto simp: count_list_0_iff)

lemma count_list_append_new: "x \<notin> set xs \<Longrightarrow> count_list (xs @ [x]) x = 1"
  by (induction xs) auto

text \<open>
  C6. \<open>set_property\<close> with the stored value returns the device as it was. With another value
  it stores the value and appends the key to the dirty list unless the key is there already.
  Setting the same new value a second time changes nothing more, so a dirty list without
  duplicates stays without duplicates and holds the key exactly once. Reading goes through
  \<open>get_property\<close>, which yields a value and no device: the source method assigns to no
  attribute, so a read cannot touch the dirty list.
\<close>

theorem set_property_dirty_tracking:
  "(properties d (Props_value n) = Some v \<longrightarrow> set_property d n v = d)
   \<and> (properties d (Props_value n) \<noteq> Some v \<longrightarrow>
        properties (set_property d n v) = (properties d)(Props_value n \<mapsto> v)
        \<and> dirty (set_property d n v)
            = (if Props_value n \<in> set (dirty d) then dirty d else dirty d @ [Props_value n])
        \<and> Props_value n \<in> set (dirty (set_property d n v)))
   \<and> set_property (set_property d n v) n v = set_property d n v
   \<and> (distinct (dirty d) \<longrightarrow>
        distinct (dirty (set_property d n v))
        \<and> (properties d (Props_value n) \<noteq> Some v \<longrightarrow>
             count_list (dirty (set_property (set_property d n v) n v)) (Props_value n) = 1))
   \<and> get_property (set_property d n v) n = Some v"
  by (auto simp: set_property_def get_property_def count_list_distinct_mem count_list_append_new)

theorem set_property_dirty_tracking_witness:
  "properties (set_property (new_Device None) POWER 1) (Props_value POWER) = Some 1
   \<and> properties (new_Device None) (Props_value POWER) \<noteq> Some 1
   \<and> distinct (dirty (new_Device None))
   \<and> dirty (set_property (new_Device None) POWER 1) = [''Pow'']
   \<and> set_property (set_property (new_Device None) POWER 1) POWER 1
        = set_property (new_Device None) POWER 1
   \<and> count_list (dirty (set_property (set_property (new_Device None) POWER 1) POWER 1)) ''Pow'' = 1"
  using set_property_dirty_tracking [of "new_Device None" POWER 1]
        set_property_dirty_tracking [of "set_property (new_Device None) POWER 1" POWER 1]
  by (simp add: new_Device_def set_property_def)

subsection \<open>Boolean accessors\<close>

text \<open>
  C10. Each of the eleven boolean accessors returns \<open>False\<close> when its wire key is absent
  from the store, and gives the same answer for an absent key as for a stored 0.
\<close>

theorem boolean_accessors_absent_key:
  "(properties d ''Pow'' = None \<longrightarrow> power_prop d = False)
   \<and> (properties d ''Air'' = None \<longrightarrow> fresh_air d = False)
   \<and> (properties d ''Blo'' = None \<longrightarrow> xfan d = False)
   \<and> (properties d ''Health'' = None \<longrightarrow> anion d = False)
   \<and> (properties d ''SwhSlp'' = None \<longrightarrow> sleep d = False)
   \<and> (properties d ''Lig'' = None \<longrightarrow> light d = False)
   \<and> (properties d ''Tur'' = None \<longrightarrow> turbo d = False)
   \<and> (properties d ''StHt'' = None \<longrightarrow> steady_heat d = False)
   \<and> (properties d ''SvSt'' = None \<longrightarrow> power_save d = False)
   \<and> (properties d ''Dfltr'' = None \<longrightarrow> clean_filter d = False)
   \<and> (properties d ''DwatFul'' = None \<longrightarrow> water_full d = False)
   \<and> power_prop (d\<lparr>properties := (properties d)(''Pow'' := None)\<rparr>)
       = power_prop (d\<lparr>properties := (properties d)(''Pow'' \<mapsto> 0)\<rparr>)
   \<and> fresh_air (d\<lparr>properties := (properties d)(''Air'' := None)\<rparr>)
       = fresh_air (d\<lparr>properties := (properties d)(''Air'' \<mapsto> 0)\<rparr>)
   \<and> xfan (d\<lparr>properties := (properties d)(''Blo'' := None)\<rparr>)
       = xfan (d\<lparr>properties := (properties d)(''Blo'' \<mapsto> 0)\<rparr>)
   \<and> anion (d\<lparr>properties := (properties d)(''Health'' := None)\<rparr>)
       = anion (d\<lparr>properties := (properties d)(''Health'' \<mapsto> 0)\<rparr>)
   \<and> sleep (d\<lparr>properties := (properties d)(''SwhSlp'' := None)\<rparr>)
       = sleep (d\<lparr>properties := (properties d)(''SwhSlp'' \<mapsto> 0)\<rparr>)
   \<and> light (d\<lparr>properties := (properties d)(''Lig'' := None)\<rparr>)
       = light (d\<lparr>properties := (properties d)(''Lig'' \<mapsto> 0)\<rparr>)
   \<and> turbo (d\<lparr>properties := (properties d)(''Tur'' := None)\<rparr>)
       = turbo (d\<lparr>properties := (properties d)(''Tur'' \<mapsto> 0)\<rparr>)
   \<and> steady_heat (d\<lparr>properties := (properties d)(''StHt'' := None)\<rparr>)
       = steady_heat (d\<lparr>properties := (properties d)(''StHt'' \<mapsto> 0)\<rparr>)
   \<and> power_save (d\<lparr>properties := (properties d)(''SvSt'' := None)\<rparr>)
       = power_save (d\<lparr>properties := (properties d)(''SvSt'' \<mapsto> 0)\<rparr>)
   \<and> clean_filter (d\<lparr>properties := (properties d)(''Dfltr'' := None)\<rparr>)
       = clean_filter (d\<lparr>properties := (properties d)(''Dfltr'' \<mapsto> 0)\<rparr>)
   \<and> water_full (d\<lparr>properties := (properties d)(''DwatFul'' := None)\<rparr>)
       = water_full (d\<lparr>properties := (properties d)(''DwatFul'' \<mapsto> 0)\<rparr>)"
  by (simp add: bool_accessors get_property_def py_bool_def)

theorem boolean_accessors_absent_key_witness:
  "properties (new_Device None) ''Pow'' = None
   \<and> properties (new_Device None) ''DwatFul'' = None
   \<and> power_prop (new_Device None) = False
   \<and> water_full (new_Device None) = False"
  using boolean_accessors_absent_key [of "new_Device None"]
  by (simp add: new_Device_def)

subsection \<open>Humidity\<close>

text \<open>
  C3. The claim is that \<open>target_humidity\<close> returns \<open>15 + h * 5\<close> for a stored setpoint
  \<open>h\<close>. The getter computes that number and drops it: on a store holding \<open>Dwet = 3\<close> the
  result is \<open>None\<close>, where the claim asks for 30.
\<close>

theorem target_humidity_returns_nothing:
  "target_humidity ((new_Device None)\<lparr>properties := [''Dwet'' \<mapsto> 3]\<rparr>) = Inr None"
  by (simp add: target_humidity_def get_property_def)

subsection \<open>Target temperature range\<close>

lemma temSet_eq: "rec_temSet (generate_temperature_record f) = py_round_div ((f - 32) * 5) 9"
  by (simp add: generate_temperature_record_def Let_def)

lemma rec_f_generate: "rec_f (generate_temperature_record f) = f"
  by (simp add: generate_temperature_record_def Let_def)

lemma py_round_div_9_near:
  shows "n - 4 \<le> 9 * py_round_div n 9" and "9 * py_round_div n 9 \<le> n + 4"
proof -
  define q where "q = n div 9"
  define r where "r = n mod 9"
  have n: "n = 9 * q + r" and r: "0 \<le> r" "r < 9"
    by (simp_all add: q_def r_def)
  have no_tie: "2 * r \<noteq> 9" by presburger
  have val: "py_round_div n 9 = (if 2 * r < 9 then q else q + 1)"
    using no_tie by (simp add: py_round_div_def Let_def q_def r_def)
  show "n - 4 \<le> 9 * py_round_div n 9"
    using n r no_tie unfolding val by (cases "2 * r < 9") simp_all
  show "9 * py_round_div n 9 \<le> n + 4"
    using n r no_tie unfolding val by (cases "2 * r < 9") simp_all
qed

lemma py_round_div_9_le: "n \<le> 9 * k + 4 \<Longrightarrow> py_round_div n 9 \<le> k"
  using py_round_div_9_near(2) [of n] by arith

lemma py_round_div_9_ge: "9 * k - 4 \<le> n \<Longrightarrow> k \<le> py_round_div n 9"
  using py_round_div_9_near(1) [of n] by arith

lemma temSet_below: "f < 46 \<Longrightarrow> py_round_div ((f - 32) * 5) 9 < 8"
  using py_round_div_9_le [of "(f - 32) * 5" 7] by simp

lemma temSet_above: "f > 86 \<Longrightarrow> py_round_div ((f - 32) * 5) 9 > 30"
  using py_round_div_9_ge [of 31 "(f - 32) * 5"] by simp

lemma temSet_inside:
  "46 \<le> f \<Longrightarrow> f \<le> 86 \<Longrightarrow>
     8 \<le> py_round_div ((f - 32) * 5) 9 \<and> py_round_div ((f - 32) * 5) 9 \<le> 30"
  using py_round_div_9_ge [of 8 "(f - 32) * 5"] py_round_div_9_le [of "(f - 32) * 5" 30]
  by simp

lemma temSet_table_range:
  "-76 \<le> f \<Longrightarrow> f \<le> 140 \<Longrightarrow>
     -60 \<le> py_round_div ((f - 32) * 5) 9 \<and> py_round_div ((f - 32) * 5) 9 \<le> 60"
  using py_round_div_9_ge [of "-60" "(f - 32) * 5"] py_round_div_9_le [of "(f - 32) * 5" 60]
  by simp

text \<open>
  C4. Assigning a target temperature below 8 or above 30 while the unit is not Fahrenheit, or
  below 46 or above 86 while it is Fahrenheit, raises \<open>ValueError\<close> and leaves the whole
  device, the record of sent messages included, as it was. Inside the range the assignment
  succeeds; in particular 8 and 30 Celsius are stored, and 7 and 31 are refused.
\<close>

theorem target_temperature_setter_range:
  "(temperature_units d \<noteq> Some 1 \<and> (val < TEMP_MIN \<or> val > TEMP_MAX)
      \<longrightarrow> set_target_temperature d val = (Some ValueError, d))
   \<and> (temperature_units d = Some 1 \<and> (val < TEMP_MIN_F \<or> val > TEMP_MAX_F)
      \<longrightarrow> set_target_temperature d val = (Some ValueError, d))
   \<and> (temperature_units d \<noteq> Some 1 \<and> TEMP_MIN \<le> val \<and> val \<le> TEMP_MAX
      \<longrightarrow> set_target_temperature d val = (None, set_property d TEMP_SET val))
   \<and> (temperature_units d = Some 1 \<and> TEMP_MIN_F \<le> val \<and> val \<le> TEMP_MAX_F
      \<longrightarrow> fst (set_target_temperature d val) = None)
   \<and> (temperature_units d \<noteq> Some 1 \<longrightarrow>
        set_target_temperature d 8 = (None, set_property d TEMP_SET 8)
        \<and> set_target_temperature d 30 = (None, set_property d TEMP_SET 30)
        \<and> set_target_temperature d 7 = (Some ValueError, d)
        \<and> set_target_temperature d 31 = (Some ValueError, d))"
  using temSet_below [of val] temSet_above [of val] temSet_inside [of val]
  by (auto simp: set_target_temperature_def validate_def temp_consts temSet_eq
           split: option.splits)

theorem target_temperature_setter_range_witness:
  "temperature_units (new_Device None) \<noteq> Some 1
   \<and> (31::int) > TEMP_MAX
   \<and> set_target_temperature (new_Device None) 31 = (Some ValueError, new_Device None)
   \<and> set_target_temperature (new_Device None) 7 = (Some ValueError, new_Device None)
   \<and> fst (set_target_temperature (new_Device None) 8) = None
   \<and> properties (snd (set_target_temperature (new_Device None) 30)) ''SetTem'' = Some 30
   \<and> temperature_units ((new_Device None)\<lparr>properties := [''TemUn'' \<mapsto> 1]\<rparr>) = Some 1
   \<and> (87::int) > TEMP_MAX_F
   \<and> set_target_temperature ((new_Device None)\<lparr>properties := [''TemUn'' \<mapsto> 1]\<rparr>) 87
        = (Some ValueError, (new_Device None)\<lparr>properties := [''TemUn'' \<mapsto> 1]\<rparr>)
   \<and> fst (set_target_temperature ((new_Device None)\<lparr>properties := [''TemUn'' \<mapsto> 1]\<rparr>) 86)
        = None"
  using target_temperature_setter_range [of "new_Device None" 31]
        target_temperature_setter_range
          [of "(new_Device None)\<lparr>properties := [''TemUn'' \<mapsto> 1]\<rparr>" 87]
        target_temperature_setter_range
          [of "(new_Device None)\<lparr>properties := [''TemUn'' \<mapsto> 1]\<rparr>" 86]
  by (simp add: temperature_units_def get_property_def new_Device_def temp_consts
                set_property_def)

subsection \<open>Fahrenheit round trip\<close>

lemma temRec_eq:
  "rec_temRec (generate_temperature_record f)
     = (if (f - 32) * 5 > 9 * py_round_div ((f - 32) * 5) 9 then 1 else 0)"
  by (simp add: generate_temperature_record_def Let_def)

lemma generate_temperature_record_inj:
  assumes c: "rec_temSet (generate_temperature_record f) = rec_temSet (generate_temperature_record g)"
      and b: "rec_temRec (generate_temperature_record f) = rec_temRec (generate_temperature_record g)"
  shows "f = g"
proof -
  define m where "m = (f - 32) * 5"
  define n where "n = (g - 32) * 5"
  define k where "k = py_round_div m 9"
  have k: "py_round_div n 9 = k"
    using c unfolding temSet_eq m_def n_def k_def by (rule sym)
  have bf: "rec_temRec (generate_temperature_record f) = (if m > 9 * k then 1 else 0)"
    unfolding temRec_eq m_def k_def by (rule refl)
  have bg: "rec_temRec (generate_temperature_record g) = (if n > 9 * k then 1 else 0)"
    unfolding temRec_eq k[symmetric] n_def by (rule refl)
  have side: "(m > 9 * k) = (n > 9 * k)"
    using b unfolding bf bg by (simp split: if_splits)
  have "m - 4 \<le> 9 * k" "9 * k \<le> m + 4" "n - 4 \<le> 9 * k" "9 * k \<le> n + 4"
    using py_round_div_9_near [of m] py_round_div_9_near [of n] k by (simp_all add: k_def)
  with side have "\<bar>m - n\<bar> < 5" by linarith
  then show ?thesis unfolding m_def n_def by simp
qed

lemma set_TEMP_TABLE:
  "set TEMP_TABLE = generate_temperature_record ` {TEMP_MIN_TABLE_F..TEMP_MAX_TABLE_F}"
  by (simp only: TEMP_TABLE_def set_map set_upto)

lemma in_TEMP_TABLE:
  "t \<in> set TEMP_TABLE \<longleftrightarrow> (\<exists>g. t = generate_temperature_record g \<and> -76 \<le> g \<and> g \<le> 140)"
  unfolding set_TEMP_TABLE TEMP_MIN_TABLE_F_def TEMP_MAX_TABLE_F_def by auto

lemma find_SomeD: "find P xs = Some x \<Longrightarrow> x \<in> set xs \<and> P x"
  by (induction xs) (auto split: if_splits)

text \<open>
  C5. With the unit set to Fahrenheit and \<open>f\<close> between -76 and 140, looking up the pair
  that \<open>generate_temperature_record\<close> gives for \<open>f\<close> returns a Fahrenheit value of the
  table; it is \<open>f\<close> itself, since a Celsius value and a bit determine the row. The lookup
  depends on the Celsius value and the bit only: any two devices in Fahrenheit agree on it.
\<close>

theorem fahrenheit_round_trip:
  assumes units: "temperature_units d = Some TemperatureUnits_F"
      and lo: "TEMP_MIN_TABLE_F \<le> f" and hi: "f \<le> TEMP_MAX_TABLE_F"
  shows "convert_to_units d (Some (rec_temSet (generate_temperature_record f)))
                            (Some (rec_temRec (generate_temperature_record f)))
           = Inr (Some f)
         \<and> f \<in> rec_f ` set TEMP_TABLE
         \<and> (\<forall>d' c b. temperature_units d' = Some TemperatureUnits_F
               \<longrightarrow> convert_to_units d' c b = convert_to_units d c b)"
proof -
  let ?r = "generate_temperature_record f"
  let ?c = "rec_temSet ?r"
  let ?b = "rec_temRec ?r"
  let ?matching = "filter (\<lambda>t. rec_temSet t = ?c) TEMP_TABLE"
  let ?P = "\<lambda>t. Some (rec_temRec t) = Some ?b"
  have f_range: "-76 \<le> f" "f \<le> 140"
    using lo hi by (simp_all add: temp_consts)
  have row: "?r \<in> set TEMP_TABLE"
    using f_range by (auto simp: in_TEMP_TABLE)
  have c_range: "\<not> (?c < TEMP_MIN_TABLE \<or> ?c > TEMP_MAX_TABLE)"
    using temSet_table_range [OF f_range] by (simp add: temSet_eq temp_consts)
  have "?r \<in> set ?matching \<and> ?P ?r"
    using row by simp
  then have "find ?P ?matching \<noteq> None"
    unfolding find_None_iff by blast
  then obtain t where t: "find ?P ?matching = Some t"
    by blast
  from find_SomeD [OF t] have t_in: "t \<in> set TEMP_TABLE"
    and t_c: "rec_temSet t = ?c" and t_b: "rec_temRec t = ?b"
    by simp_all
  from t_in obtain g where g: "t = generate_temperature_record g"
    by (auto simp: in_TEMP_TABLE)
  have "g = f"
    using generate_temperature_record_inj [of g f] t_c t_b unfolding g by simp
  then have "rec_f t = f"
    by (simp add: g rec_f_generate)
  then have trip: "convert_to_units d (Some ?c) (Some ?b) = Inr (Some f)"
    using units c_range t by (simp add: convert_to_units_def Let_def)
  have member: "f \<in> rec_f ` set TEMP_TABLE"
    using row rec_f_generate [of f] by (metis image_eqI)
  have det: "\<forall>d' c b. temperature_units d' = Some TemperatureUnits_F
               \<longrightarrow> convert_to_units d' c b = convert_to_units d c b"
    using units by (simp add: convert_to_units_def)
  from trip member det show ?thesis by blast
qed

theorem fahrenheit_round_trip_witness:
  "temperature_units ((new_Device None)\<lparr>properties := [''TemUn'' \<mapsto> 1]\<rparr>) = Some TemperatureUnits_F
   \<and> TEMP_MIN_TABLE_F \<le> 77 \<and> 77 \<le> TEMP_MAX_TABLE_F
   \<and> rec_temSet (generate_temperature_record 77) = 25
   \<and> rec_temRec (generate_temperature_record 77) = 0
   \<and> convert_to_units ((new_Device None)\<lparr>properties := [''TemUn'' \<mapsto> 1]\<rparr>) (Some 25) (Some 0)
       = Inr (Some 77)"
  using fahrenheit_round_trip [of "(new_Device None)\<lparr>properties := [''TemUn'' \<mapsto> 1]\<rparr>" 77]
  by (simp add: temperature_units_def get_property_def new_Device_def temp_consts
        generate_temperature_record_def py_round_div_def Let_def)


subsection \<open>Current temperature\<close>

lemma version_major_40: "version d = Some ''4.0'' \<Longrightarrow> version_major d = Inr (Some 4)"
  by (simp add: version_major_def py_int_def is_digit_def)

lemma version_major_None: "version d = None \<Longrightarrow> version_major d = Inr None"
  by (simp add: version_major_def)




text \<open>
  C2, as claimed: a raw reading of exactly 0 makes \<open>current_temperature\<close> return the target
  temperature whatever the version. A new device that receives
  a status response with a firmware id ending in \<open>V4.0.bin\<close>, a raw reading of 0 and a
  target of 22 has version \<open>4.0\<close>, and its \<open>current_temperature\<close> is 0, not 22.
\<close>

theorem zero_reading_counterexample:
  "version (snd (handle_state_update (new_Device None) (Some ''362001000762+U-CS532AE(LT)V4.0.bin'')
                   (map_of [(''TemSen'', 0), (''SetTem'', 22)]))) = Some ''4.0''
   \<and> properties (snd (handle_state_update (new_Device None)
                   (Some ''362001000762+U-CS532AE(LT)V4.0.bin'')
                   (map_of [(''TemSen'', 0), (''SetTem'', 22)]))) ''TemSen'' = Some 0
   \<and> current_temperature (snd (handle_state_update (new_Device None)
                   (Some ''362001000762+U-CS532AE(LT)V4.0.bin'')
                   (map_of [(''TemSen'', 0), (''SetTem'', 22)]))) = Inr (Some 0)
   \<and> target_temperature (snd (handle_state_update (new_Device None)
                   (Some ''362001000762+U-CS532AE(LT)V4.0.bin'')
                   (map_of [(''TemSen'', 0), (''SetTem'', 22)]))) = Inr (Some 22)"
  by (simp add: handle_state_update_def new_Device_def get_property_def current_temperature_def
        target_temperature_def version_of_hid_def is_version_char_def
        version_major_def py_int_def is_digit_def convert_to_units_def temperature_units_def
        or_target_temperature_def temp_consts Let_def)

text \<open>
  C2, amended. With a raw reading of exactly 0, \<open>current_temperature\<close> returns the target
  temperature when the major version is not 4 (or there is no version); under major version 4
  it returns the conversion of 0.
\<close>

theorem zero_reading_falls_back:
  "(get_property d TEMP_SENSOR = Some 0 \<and> version_major d = Inr v \<and> v \<noteq> Some 4 \<longrightarrow>
      current_temperature d = target_temperature d)
   \<and> (get_property d TEMP_SENSOR = Some 0 \<and> version_major d = Inr (Some 4) \<longrightarrow>
      current_temperature d
        = or_target_temperature d (convert_to_units d (Some 0) (get_property d TEMP_BIT)))"
  by (auto simp: current_temperature_def Let_def)

theorem zero_reading_falls_back_witness:
  "get_property ((new_Device None)\<lparr>properties := map_of [(''TemSen'', 0), (''SetTem'', 22)]\<rparr>)
       TEMP_SENSOR = Some 0
   \<and> version_major ((new_Device None)\<lparr>properties := map_of [(''TemSen'', 0), (''SetTem'', 22)]\<rparr>)
       = Inr None
   \<and> current_temperature
        ((new_Device None)\<lparr>properties := map_of [(''TemSen'', 0), (''SetTem'', 22)]\<rparr>)
       = target_temperature
           ((new_Device None)\<lparr>properties := map_of [(''TemSen'', 0), (''SetTem'', 22)]\<rparr>)"
  using zero_reading_falls_back
          [of "(new_Device None)\<lparr>properties := map_of [(''TemSen'', 0), (''SetTem'', 22)]\<rparr>" None]
  by (simp add: new_Device_def get_property_def version_major_def)


subsection \<open>Sending, binding and pushing\<close>

lemma send_outbox: "outbox (snd (send net d pkt)) = outbox d @ [pkt]"
  by (simp add: send_def Let_def)

lemma send_dirty: "dirty (snd (send net d pkt)) = dirty d"
  by (simp add: send_def Let_def)

lemma send_result: "fst (send net d pkt) = None \<or> fst (send net d pkt) = Some TimeoutError"
  by (simp add: send_def Let_def)

lemma bind_internal_outbox: "outbox (snd (bind_internal net d ck)) = outbox d @ [BindMessage ck]"
  by (simp add: bind_internal_def send_def Let_def split: bind_reply.splits)

lemma bind_internal_dirty: "dirty (snd (bind_internal net d ck)) = dirty d"
  by (simp add: bind_internal_def send_def Let_def split: bind_reply.splits)

lemma bind_internal_result:
  "fst (bind_internal net d ck) = None \<or> fst (bind_internal net d ck) = Some TimeoutError"
  by (simp add: bind_internal_def send_def Let_def split: bind_reply.splits)

lemma bind_attempts_dirty: "dirty (snd (bind_attempts net d c)) = dirty d"
proof (cases c)
  case (Some a)
  then show ?thesis by (simp add: bind_attempts_def bind_internal_dirty)
next
  case None
  obtain r1 d1 where a1: "bind_internal net d CipherV1 = (r1, d1)"
    by (cases "bind_internal net d CipherV1")
  have "dirty d1 = dirty d"
    using bind_internal_dirty [of net d CipherV1] a1 by simp
  then show ?thesis
    using None a1 by (simp add: bind_attempts_def bind_internal_dirty)
qed

lemma bind_attempts_result:
  "fst (bind_attempts net d c) = None \<or> fst (bind_attempts net d c) = Some TimeoutError"
proof (cases c)
  case (Some a)
  then show ?thesis using bind_internal_result by (simp add: bind_attempts_def)
next
  case None
  obtain r1 d1 where a1: "bind_internal net d CipherV1 = (r1, d1)"
    by (cases "bind_internal net d CipherV1")
  have "r1 = None \<or> r1 = Some TimeoutError"
    using bind_internal_result [of net d CipherV1] a1 by simp
  then show ?thesis
    using None a1 bind_internal_result [of net d1 CipherV2] by (auto simp: bind_attempts_def)
qed

lemma bind_dirty: "dirty (snd (bind net d k c)) = dirty d"
proof -
  obtain r d1 where a: "bind_attempts net (d\<lparr>transport := True\<rparr>) c = (r, d1)"
    by (cases "bind_attempts net (d\<lparr>transport := True\<rparr>) c")
  have "dirty d1 = dirty d"
    using bind_attempts_dirty [of net "d\<lparr>transport := True\<rparr>" c] a by simp
  then show ?thesis
    using a by (simp add: bind_def split: option.splits)
qed

lemma bind_if_needed_dirty: "dirty (snd (bind_if_needed net d)) = dirty d"
  by (simp add: bind_if_needed_def bind_dirty)


text \<open>
  C7, as claimed: after any call of \<open>push_state_update\<close>, returning or raising a timeout
  error, the dirty list is empty. On an unbound device with \<open>Pow\<close> dirty and a unit that is
  off line, the implicit bind times out: the call raises \<open>DeviceTimeoutError\<close> and \<open>Pow\<close>
  is still dirty.
\<close>

theorem push_state_update_counterexample:
  "dirty (set_property (new_Device (Some example_info)) POWER 1) = [''Pow'']
   \<and> fst (push_state_update silent_network (set_property (new_Device (Some example_info)) POWER 1))
       = Some DeviceTimeoutError
   \<and> dirty (snd (push_state_update silent_network
                    (set_property (new_Device (Some example_info)) POWER 1)))
       = [''Pow'']"
  by (simp add: push_state_update_def bind_if_needed_def bind_def bind_attempts_def
        bind_internal_def send_def silent_network_def set_property_def new_Device_def Let_def)

text \<open>
  C7, amended. A call with an empty dirty list returns at once: nothing is sent and the device
  is unchanged. A call with a non-empty dirty list whose device has a cipher, or whose implicit
  bind succeeds, leaves the dirty list empty whether the send completes or times out (the only
  error it can raise then is \<open>DeviceTimeoutError\<close>). If the implicit bind fails, its error is
  raised before the dirty list is cleared, and the dirty list is as it was.
\<close>

theorem push_state_update_clears_dirty:
  "(dirty d = [] \<longrightarrow> push_state_update net d = (None, d))
   \<and> (dirty d \<noteq> [] \<and> fst (bind_if_needed net d) = None \<longrightarrow>
        dirty (snd (push_state_update net d)) = []
        \<and> (fst (push_state_update net d) = None
            \<or> fst (push_state_update net d) = Some DeviceTimeoutError))
   \<and> (dirty d \<noteq> [] \<and> device_cipher d \<noteq> None \<longrightarrow>
        dirty (snd (push_state_update net d)) = [])
   \<and> (dirty d \<noteq> [] \<and> fst (bind_if_needed net d) \<noteq> None \<longrightarrow>
        fst (push_state_update net d) = fst (bind_if_needed net d)
        \<and> dirty (snd (push_state_update net d)) = dirty d)"
proof -
  obtain r d1 where b: "bind_if_needed net d = (r, d1)"
    by (cases "bind_if_needed net d")
  have d1: "dirty d1 = dirty d"
    using bind_if_needed_dirty [of net d] b by simp
  have bound: "device_cipher d \<noteq> None \<Longrightarrow> r = None"
    using b by (auto simp: bind_if_needed_def)
  show ?thesis
    using b d1 bound
    by (auto simp: push_state_update_def send_def Let_def split: prod.splits)
qed

theorem push_state_update_clears_dirty_witness:
  "dirty ((set_property (new_Device None) POWER 1)
            \<lparr>device_cipher := Some \<lparr>kind = CipherV1, key = ''k''\<rparr>\<rparr>) \<noteq> []
   \<and> device_cipher ((set_property (new_Device None) POWER 1)
            \<lparr>device_cipher := Some \<lparr>kind = CipherV1, key = ''k''\<rparr>\<rparr>) \<noteq> None
   \<and> dirty (snd (push_state_update silent_network
        ((set_property (new_Device None) POWER 1)
            \<lparr>device_cipher := Some \<lparr>kind = CipherV1, key = ''k''\<rparr>\<rparr>))) = []
   \<and> fst (push_state_update silent_network
        ((set_property (new_Device None) POWER 1)
            \<lparr>device_cipher := Some \<lparr>kind = CipherV1, key = ''k''\<rparr>\<rparr>)) = Some DeviceTimeoutError
   \<and> dirty (new_Device None) = []
   \<and> push_state_update silent_network (new_Device None) = (None, new_Device None)"
  using push_state_update_clears_dirty
          [of "(set_property (new_Device None) POWER 1)
                  \<lparr>device_cipher := Some \<lparr>kind = CipherV1, key = ''k''\<rparr>\<rparr>" silent_network]
        push_state_update_clears_dirty [of "new_Device None" silent_network]
  by (simp add: push_state_update_def bind_if_needed_def send_def silent_network_def
        set_property_def new_Device_def Let_def)


text \<open>
  C8. \<open>bind\<close> without key and cipher, on a device that has its \<open>device_info\<close>: the bind
  messages it sends are one under \<open>CipherV1\<close>, followed by one under \<open>CipherV2\<close> exactly
  when the first attempt timed out, and nothing else, so \<open>CipherV1\<close> is never tried twice.
  If both attempts time out the result is \<open>DeviceTimeoutError\<close>; if the attempts end without
  a timeout and no cipher has been designated, the result is \<open>DeviceNotBoundError\<close>; with a
  cipher designated, \<open>bind\<close> succeeds.
\<close>

theorem bind_tries_V1_then_V2:
  assumes info: "device_info d \<noteq> None"
  shows "outbox (snd (bind net d None None))
           = outbox d @
               (if fst (bind_internal net (d\<lparr>transport := True\<rparr>) CipherV1) = Some TimeoutError
                then [BindMessage CipherV1, BindMessage CipherV2]
                else [BindMessage CipherV1])
         \<and> (fst (bind_internal net (d\<lparr>transport := True\<rparr>) CipherV1) = Some TimeoutError
              \<and> fst (bind_internal net
                       (snd (bind_internal net (d\<lparr>transport := True\<rparr>) CipherV1)) CipherV2)
                  = Some TimeoutError
              \<longrightarrow> fst (bind net d None None) = Some DeviceTimeoutError)
         \<and> (fst (bind_attempts net (d\<lparr>transport := True\<rparr>) None) = None
              \<and> device_cipher (snd (bind_attempts net (d\<lparr>transport := True\<rparr>) None)) = None
              \<longrightarrow> fst (bind net d None None) = Some DeviceNotBoundError)
         \<and> (fst (bind_attempts net (d\<lparr>transport := True\<rparr>) None) = None
              \<and> device_cipher (snd (bind_attempts net (d\<lparr>transport := True\<rparr>) None)) \<noteq> None
              \<longrightarrow> fst (bind net d None None) = None)"
proof -
  let ?d0 = "d\<lparr>transport := True\<rparr>"
  obtain r1 d1 where a1: "bind_internal net ?d0 CipherV1 = (r1, d1)"
    by (cases "bind_internal net ?d0 CipherV1")
  obtain r2 d2 where a2: "bind_internal net d1 CipherV2 = (r2, d2)"
    by (cases "bind_internal net d1 CipherV2")
  have o1: "outbox d1 = outbox d @ [BindMessage CipherV1]"
    using bind_internal_outbox [of net ?d0 CipherV1] a1 by simp
  have o2: "outbox d2 = outbox d @ [BindMessage CipherV1, BindMessage CipherV2]"
    using bind_internal_outbox [of net d1 CipherV2] a2 o1 by simp
  have att: "bind_attempts net ?d0 None = (if r1 = Some TimeoutError then (r2, d2) else (r1, d1))"
    using a1 a2 by (simp add: bind_attempts_def)
  show ?thesis
    using info a1 a2 o1 o2 att
    by (auto simp: bind_def split: if_splits)
qed

theorem bind_tries_V1_then_V2_witness:
  "device_info (new_Device (Some example_info)) \<noteq> None
   \<and> outbox (snd (bind silent_network (new_Device (Some example_info)) None None))
       = [BindMessage CipherV1, BindMessage CipherV2]
   \<and> fst (bind silent_network (new_Device (Some example_info)) None None)
       = Some DeviceTimeoutError
   \<and> outbox (snd (bind (answering_network None) (new_Device (Some example_info)) None None))
       = [BindMessage CipherV1]
   \<and> fst (bind (answering_network None) (new_Device (Some example_info)) None None)
       = Some DeviceNotBoundError"
  using bind_tries_V1_then_V2 [of "new_Device (Some example_info)" silent_network]
        bind_tries_V1_then_V2 [of "new_Device (Some example_info)" "answering_network None"]
  by (simp add: bind_attempts_def bind_internal_def send_def silent_network_def
        answering_network_def new_Device_def Let_def)


subsection \<open>Polling health\<close>

lemma stale_device [simp]: "stale K now (c\<lparr>device := d\<rparr>) = stale K now c"
  by (simp add: stale_def split: option.splits)

lemma update_timeout:
  assumes "fst (update_state net (device c)) = Some DeviceTimeoutError"
  shows "error_count (snd (async_update_data K net now fin c)) = error_count c + 1"
    and "(fst (async_update_data K net now fin c) = Inl UpdateFailed)
           = (last_update_success c \<and> error_count c + 1 \<ge> MAX_ERRORS K)"
    and "\<not> (last_update_success c \<and> error_count c + 1 \<ge> MAX_ERRORS K)
           \<Longrightarrow> \<exists>data. fst (async_update_data K net now fin c) = Inr data"
  using assms
  by (auto simp: async_update_data_def finish_def Let_def split: prod.splits if_splits)

lemma update_fresh_success:
  assumes "fst (update_state net (device c)) = None" and "\<not> stale K now c"
  shows "error_count (snd (async_update_data K net now fin c)) = 0"
    and "(fst (async_update_data K net now fin c) = Inl UpdateFailed)
           = (last_update_success c \<and> 0 \<ge> MAX_ERRORS K)"
    and "\<not> (last_update_success c \<and> 0 \<ge> MAX_ERRORS K)
           \<Longrightarrow> \<exists>data. fst (async_update_data K net now fin c) = Inr data"
  using assms
  by (auto simp: async_update_data_def finish_def Let_def split: prod.splits if_splits)

lemma refresh_timeout:
  assumes "fst (update_state net (device c)) = Some DeviceTimeoutError"
  shows "error_count (async_refresh K net now fin c) = error_count c + 1"
    and "last_update_success (async_refresh K net now fin c)
           = (\<not> (last_update_success c \<and> error_count c + 1 \<ge> MAX_ERRORS K))"
proof -
  obtain r c' where u: "async_update_data K net now fin c = (r, c')"
    by (cases "async_update_data K net now fin c")
  have cnt: "error_count c' = error_count c + 1"
    using update_timeout(1) [OF assms, of K now fin] u by simp
  have fail: "(r = Inl UpdateFailed) = (last_update_success c \<and> error_count c + 1 \<ge> MAX_ERRORS K)"
    using update_timeout(2) [OF assms, of K now fin] u by simp
  have ok: "\<not> (last_update_success c \<and> error_count c + 1 \<ge> MAX_ERRORS K) \<Longrightarrow> \<exists>data. r = Inr data"
    using update_timeout(3) [OF assms, of K now fin] u by simp
  show "error_count (async_refresh K net now fin c) = error_count c + 1"
    using u cnt by (simp add: async_refresh_def split: sum.splits)
  show "last_update_success (async_refresh K net now fin c)
           = (\<not> (last_update_success c \<and> error_count c + 1 \<ge> MAX_ERRORS K))"
    using u fail ok by (auto simp: async_refresh_def split: sum.splits)
qed

lemma refresh_fresh_success:
  assumes "fst (update_state net (device c)) = None" and "\<not> stale K now c"
  shows "error_count (async_refresh K net now fin c) = 0"
    and "last_update_success (async_refresh K net now fin c)
           = (\<not> (last_update_success c \<and> 0 \<ge> MAX_ERRORS K))"
proof -
  obtain r c' where u: "async_update_data K net now fin c = (r, c')"
    by (cases "async_update_data K net now fin c")
  have cnt: "error_count c' = 0"
    using update_fresh_success(1) [OF assms, of fin] u by simp
  have fail: "(r = Inl UpdateFailed) = (last_update_success c \<and> 0 \<ge> MAX_ERRORS K)"
    using update_fresh_success(2) [OF assms, of fin] u by simp
  have ok: "\<not> (last_update_success c \<and> 0 \<ge> MAX_ERRORS K) \<Longrightarrow> \<exists>data. r = Inr data"
    using update_fresh_success(3) [OF assms, of fin] u by simp
  show "error_count (async_refresh K net now fin c) = 0"
    using u cnt by (simp add: async_refresh_def split: sum.splits)
  show "last_update_success (async_refresh K net now fin c)
           = (\<not> (last_update_success c \<and> 0 \<ge> MAX_ERRORS K))"
    using u fail ok by (auto simp: async_refresh_def split: sum.splits)
qed


lemma three_timeouts:
  assumes K: "MAX_ERRORS K = 3" and e0: "error_count c = 0" and l0: "last_update_success c"
    and t1: "fst (update_state n1 (device c)) = Some DeviceTimeoutError"
    and t2: "fst (update_state n2 (device (async_refresh K n1 a1 b1 c))) = Some DeviceTimeoutError"
    and t3: "fst (update_state n3 (device (async_refresh K n2 a2 b2 (async_refresh K n1 a1 b1 c))))
               = Some DeviceTimeoutError"
  shows "last_update_success (async_refresh K n1 a1 b1 c)"
    and "last_update_success (async_refresh K n2 a2 b2 (async_refresh K n1 a1 b1 c))"
    and "\<not> last_update_success
             (async_refresh K n3 a3 b3 (async_refresh K n2 a2 b2 (async_refresh K n1 a1 b1 c)))"
    and "error_count (async_refresh K n2 a2 b2 (async_refresh K n1 a1 b1 c)) = 2"
proof -
  let ?c1 = "async_refresh K n1 a1 b1 c"
  let ?c2 = "async_refresh K n2 a2 b2 ?c1"
  let ?c3 = "async_refresh K n3 a3 b3 ?c2"
  have e1: "error_count ?c1 = 1" and l1: "last_update_success ?c1"
    using refresh_timeout [OF t1, of K a1 b1] K e0 l0 by simp_all
  have e2: "error_count ?c2 = 2" and l2: "last_update_success ?c2"
    using refresh_timeout [OF t2, of K a2 b2] K e1 l1 by simp_all
  have l3: "\<not> last_update_success ?c3"
    using refresh_timeout(2) [OF t3, of K a3 b3] K e2 l2 by simp
  show "last_update_success ?c1" by (rule l1)
  show "last_update_success ?c2" by (rule l2)
  show "\<not> last_update_success ?c3" by (rule l3)
  show "error_count ?c2 = 2" by (rule e2)
qed

lemma success_then_three_timeouts:
  assumes K: "MAX_ERRORS K = 3" and l0: "last_update_success c"
    and s: "fst (update_state m (device c)) = None" and fresh: "\<not> stale K x c"
    and t1: "fst (update_state n1 (device (async_refresh K m x y c))) = Some DeviceTimeoutError"
    and t2: "fst (update_state n2 (device (async_refresh K n1 a1 b1 (async_refresh K m x y c))))
               = Some DeviceTimeoutError"
    and t3: "fst (update_state n3 (device (async_refresh K n2 a2 b2
               (async_refresh K n1 a1 b1 (async_refresh K m x y c))))) = Some DeviceTimeoutError"
  shows "error_count (async_refresh K m x y c) = 0"
    and "last_update_success (async_refresh K m x y c)"
    and "last_update_success (async_refresh K n1 a1 b1 (async_refresh K m x y c))"
    and "last_update_success
           (async_refresh K n2 a2 b2 (async_refresh K n1 a1 b1 (async_refresh K m x y c)))"
    and "\<not> last_update_success
           (async_refresh K n3 a3 b3 (async_refresh K n2 a2 b2
              (async_refresh K n1 a1 b1 (async_refresh K m x y c))))"
proof -
  let ?s = "async_refresh K m x y c"
  have e: "error_count ?s = 0" and l: "last_update_success ?s"
    using refresh_fresh_success [OF s fresh, of y] K by simp_all
  show "error_count ?s = 0" by (rule e)
  show "last_update_success ?s" by (rule l)
  show "last_update_success (async_refresh K n1 a1 b1 ?s)"
    using three_timeouts(1) [OF K e l t1 t2 t3] .
  show "last_update_success (async_refresh K n2 a2 b2 (async_refresh K n1 a1 b1 ?s))"
    using three_timeouts(2) [OF K e l t1 t2 t3] .
  show "\<not> last_update_success
           (async_refresh K n3 a3 b3 (async_refresh K n2 a2 b2 (async_refresh K n1 a1 b1 ?s)))"
    using three_timeouts(3) [OF K e l t1 t2 t3] .
qed


lemma bound_update_state:
  assumes "device_cipher d \<noteq> None"
  shows "fst (update_state net d)
           = (if drained net (outbox d @ [StatusMessage (map Props_value all_Props
                  @ (if hid d = None \<or> hid d = Some [] then [''hid''] else []))])
              then None else Some DeviceTimeoutError)"
    and "device_cipher (snd (update_state net d)) = device_cipher d"
  using assms by (auto simp: update_state_def bind_if_needed_def send_def Let_def)

lemma silent_times_out:
  "device_cipher d \<noteq> None \<Longrightarrow> fst (update_state silent_network d) = Some DeviceTimeoutError"
  by (simp add: bound_update_state(1) silent_network_def)

lemma async_update_data_device:
  "device (snd (async_update_data K net now fin c)) = snd (update_state net (device c))"
  by (auto simp: async_update_data_def finish_def Let_def split: prod.splits option.splits)

lemma async_refresh_device:
  "device (async_refresh K net now fin c) = snd (update_state net (device c))"
  using async_update_data_device [of K net now fin c]
  by (auto simp: async_refresh_def split: prod.splits sum.splits)

lemma async_refresh_bound:
  "device_cipher (device c) \<noteq> None \<Longrightarrow>
     device_cipher (device (async_refresh K net now fin c)) \<noteq> None"
  by (simp add: async_refresh_device bound_update_state(2))

lemma answering_succeeds:
  "device_cipher d \<noteq> None \<Longrightarrow> fst (update_state (answering_network k) d) = None"
  by (simp add: bound_update_state(1) answering_network_def)

lemma async_refresh_update_interval:
  "update_interval (async_refresh K net now fin c) = update_interval c"
  by (auto simp: async_refresh_def async_update_data_def finish_def Let_def
           split: prod.splits sum.splits option.splits if_splits)

lemma refresh_timeout_stamp:
  assumes "fst (update_state net (device c)) = Some DeviceTimeoutError"
      and "\<not> (last_update_success c \<and> error_count c + 1 \<ge> MAX_ERRORS K)"
  shows "last_response_time (async_refresh K net now fin c) = fin"
  using assms
  by (auto simp: async_refresh_def async_update_data_def finish_def Let_def
           split: prod.splits sum.splits if_splits)

text \<open>
  C9. In \<open>_async_update_data\<close>, a cycle whose \<open>update_state\<close> ends in
  \<open>DeviceTimeoutError\<close> adds one to the error counter, and it reports \<open>UpdateFailed\<close>
  exactly when the previous cycle was successful and the counter has reached \<open>MAX_ERRORS\<close>.
  A successful cycle that is not stale sets the counter to zero. With a threshold of three,
  starting from a healthy coordinator with a counter of zero: after two timeouts in a row
  read-health is still good; a third timeout in a row makes it failed; if instead a fresh
  success follows the two timeouts, the counter is back at zero and it takes three further
  timeouts in a row, not one, to fail.
\<close>

theorem polling_error_threshold:
  fixes K :: settings and c :: Coordinator
    and netA netB netC netS netD netE netF :: network
    and nowA finA nowB finB nowC finC nowS finS nowD finD nowE finE nowF finF :: int
  defines "cA \<equiv> async_refresh K netA nowA finA c"
  defines "cB \<equiv> async_refresh K netB nowB finB cA"
  defines "cC \<equiv> async_refresh K netC nowC finC cB"
  defines "cS \<equiv> async_refresh K netS nowS finS cB"
  defines "cD \<equiv> async_refresh K netD nowD finD cS"
  defines "cE \<equiv> async_refresh K netE nowE finE cD"
  defines "cF \<equiv> async_refresh K netF nowF finF cE"
  shows "(fst (update_state netA (device c)) = Some DeviceTimeoutError \<longrightarrow>
            error_count (snd (async_update_data K netA nowA finA c)) = error_count c + 1
            \<and> (fst (async_update_data K netA nowA finA c) = Inl UpdateFailed)
                = (last_update_success c \<and> error_count c + 1 \<ge> MAX_ERRORS K))
         \<and> (fst (update_state netA (device c)) = None \<and> \<not> stale K nowA c \<longrightarrow>
            error_count (snd (async_update_data K netA nowA finA c)) = 0)
         \<and> (MAX_ERRORS K = 3 \<and> error_count c = 0 \<and> last_update_success c
             \<and> fst (update_state netA (device c)) = Some DeviceTimeoutError
             \<and> fst (update_state netB (device cA)) = Some DeviceTimeoutError
             \<longrightarrow>
               last_update_success cA \<and> last_update_success cB
               \<and> (fst (update_state netC (device cB)) = Some DeviceTimeoutError
                    \<longrightarrow> \<not> last_update_success cC)
               \<and> (fst (update_state netS (device cB)) = None \<and> \<not> stale K nowS cB
                    \<and> fst (update_state netD (device cS)) = Some DeviceTimeoutError
                    \<and> fst (update_state netE (device cD)) = Some DeviceTimeoutError
                    \<and> fst (update_state netF (device cE)) = Some DeviceTimeoutError
                    \<longrightarrow> error_count cS = 0 \<and> last_update_success cS \<and> last_update_success cD
                        \<and> last_update_success cE \<and> \<not> last_update_success cF))"
proof (intro conjI impI; (elim conjE)?)
  assume t: "fst (update_state netA (device c)) = Some DeviceTimeoutError"
  show "error_count (snd (async_update_data K netA nowA finA c)) = error_count c + 1"
    using update_timeout(1) [OF t] .
  show "(fst (async_update_data K netA nowA finA c) = Inl UpdateFailed)
                = (last_update_success c \<and> error_count c + 1 \<ge> MAX_ERRORS K)"
    using update_timeout(2) [OF t] .
next
  assume "fst (update_state netA (device c)) = None" "\<not> stale K nowA c"
  then show "error_count (snd (async_update_data K netA nowA finA c)) = 0"
    by (rule update_fresh_success(1))
next
  assume h: "MAX_ERRORS K = 3" "error_count c = 0" "last_update_success c"
    "fst (update_state netA (device c)) = Some DeviceTimeoutError"
    "fst (update_state netB (device cA)) = Some DeviceTimeoutError"
  have l1: "last_update_success cA" and e1: "error_count cA = 1"
    using refresh_timeout [OF h(4), of K nowA finA] h(1-3) by (simp_all add: cA_def)
  have l2: "last_update_success cB" and e2: "error_count cB = 2"
    using refresh_timeout [OF h(5), of K nowB finB] h(1) l1 e1 by (simp_all add: cB_def)
  show "last_update_success cA" by (rule l1)
  show "last_update_success cB" by (rule l2)
  {
    assume t3: "fst (update_state netC (device cB)) = Some DeviceTimeoutError"
    show "\<not> last_update_success cC"
      using refresh_timeout(2) [OF t3, of K nowC finC] h(1) l2 e2 by (simp add: cC_def)
  }
  {
    assume g: "fst (update_state netS (device cB)) = None" "\<not> stale K nowS cB"
      "fst (update_state netD (device cS)) = Some DeviceTimeoutError"
      "fst (update_state netE (device cD)) = Some DeviceTimeoutError"
      "fst (update_state netF (device cE)) = Some DeviceTimeoutError"
    note r = success_then_three_timeouts
               [OF h(1) l2 g(1) g(2) g(3) [unfolded cS_def] g(4) [unfolded cD_def cS_def]
                   g(5) [unfolded cE_def cD_def cS_def]]
    show "error_count cS = 0" using r(1) by (simp add: cS_def)
    show "last_update_success cS" using r(2) by (simp add: cS_def)
    show "last_update_success cD" using r(3) by (simp add: cD_def cS_def)
    show "last_update_success cE" using r(4) by (simp add: cE_def cD_def cS_def)
    show "\<not> last_update_success cF" using r(5) by (simp add: cF_def cE_def cD_def cS_def)
  }
qed



theorem polling_error_threshold_witness:
  "MAX_ERRORS example_settings = 3
   \<and> error_count example_coordinator = 0
   \<and> last_update_success example_coordinator
   \<and> fst (update_state silent_network (device example_coordinator)) = Some DeviceTimeoutError
   \<and> error_count (snd (async_update_data example_settings silent_network 60000000 60000001
                          example_coordinator)) = 1
   \<and> fst (async_update_data example_settings silent_network 60000000 60000001
             example_coordinator) \<noteq> Inl UpdateFailed
   \<and> last_update_success
        (async_refresh example_settings silent_network 60000000 60000001 example_coordinator)
   \<and> last_update_success
        (async_refresh example_settings silent_network 120000000 120000001
          (async_refresh example_settings silent_network 60000000 60000001 example_coordinator))
   \<and> \<not> last_update_success
        (async_refresh example_settings silent_network 180000000 180000001
          (async_refresh example_settings silent_network 120000000 120000001
            (async_refresh example_settings silent_network 60000000 60000001
               example_coordinator)))
   \<and> \<not> stale example_settings 180000000
        (async_refresh example_settings silent_network 120000000 120000001
          (async_refresh example_settings silent_network 60000000 60000001 example_coordinator))
   \<and> error_count
        (async_refresh example_settings (answering_network None) 180000000 180000001
          (async_refresh example_settings silent_network 120000000 120000001
            (async_refresh example_settings silent_network 60000000 60000001
               example_coordinator))) = 0
   \<and> last_update_success
        (async_refresh example_settings silent_network 300000000 300000001
          (async_refresh example_settings silent_network 240000000 240000001
            (async_refresh example_settings (answering_network None) 180000000 180000001
              (async_refresh example_settings silent_network 120000000 120000001
                (async_refresh example_settings silent_network 60000000 60000001
                   example_coordinator)))))
   \<and> \<not> last_update_success
        (async_refresh example_settings silent_network 360000000 360000001
          (async_refresh example_settings silent_network 300000000 300000001
            (async_refresh example_settings silent_network 240000000 240000001
              (async_refresh example_settings (answering_network None) 180000000 180000001
                (async_refresh example_settings silent_network 120000000 120000001
                  (async_refresh example_settings silent_network 60000000 60000001
                     example_coordinator))))))"
proof -
  let ?K = example_settings
  let ?c1 = "async_refresh ?K silent_network 60000000 60000001 example_coordinator"
  let ?c2 = "async_refresh ?K silent_network 120000000 120000001 ?c1"
  let ?s3 = "async_refresh ?K (answering_network None) 180000000 180000001 ?c2"
  let ?s4 = "async_refresh ?K silent_network 240000000 240000001 ?s3"
  let ?s5 = "async_refresh ?K silent_network 300000000 300000001 ?s4"
  have K: "MAX_ERRORS ?K = 3"
    by (simp add: example_settings_def)
  have c: "error_count example_coordinator = 0" "last_update_success example_coordinator"
    by (simp_all add: example_coordinator_def new_Coordinator_def)
  have b: "device_cipher (device example_coordinator) \<noteq> None"
    by (simp add: example_coordinator_def new_Coordinator_def bound_device_def)
  note t1 = silent_times_out [OF b]
  have b1: "device_cipher (device ?c1) \<noteq> None" by (rule async_refresh_bound [OF b])
  note t2 = silent_times_out [OF b1]
  have b2: "device_cipher (device ?c2) \<noteq> None" by (rule async_refresh_bound [OF b1])
  note t3 = silent_times_out [OF b2]
  note s = answering_succeeds [OF b2, of None]
  have b3: "device_cipher (device ?s3) \<noteq> None" by (rule async_refresh_bound [OF b2])
  note t4 = silent_times_out [OF b3]
  have b4: "device_cipher (device ?s4) \<noteq> None" by (rule async_refresh_bound [OF b3])
  note t5 = silent_times_out [OF b4]
  have b5: "device_cipher (device ?s5) \<noteq> None" by (rule async_refresh_bound [OF b4])
  note t6 = silent_times_out [OF b5]
  have e1: "error_count ?c1 = 1" and l1: "last_update_success ?c1"
    using refresh_timeout [OF t1, of ?K 60000000 60000001] K c by simp_all
  have stamp: "last_response_time ?c2 = 120000001"
    using refresh_timeout_stamp [OF t2, of ?K 120000000 120000001] K e1 by simp
  have iv: "update_interval ?c2 = Some 60000000"
    by (simp add: async_refresh_update_interval example_coordinator_def new_Coordinator_def
          example_settings_def timedelta_seconds_def)
  have fresh: "\<not> stale ?K 180000000 ?c2"
    unfolding stale_def iv stamp by (simp add: example_settings_def timedelta_seconds_def)
  show ?thesis
    using polling_error_threshold
            [where K = ?K and c = example_coordinator
               and netA = silent_network and nowA = 60000000 and finA = 60000001
               and netB = silent_network and nowB = 120000000 and finB = 120000001
               and netC = silent_network and nowC = 180000000 and finC = 180000001
               and netS = "answering_network None" and nowS = 180000000 and finS = 180000001
               and netD = silent_network and nowD = 240000000 and finD = 240000001
               and netE = silent_network and nowE = 300000000 and finE = 300000001
               and netF = silent_network and nowF = 360000000 and finF = 360000001]
          K c t1 t2 t3 s fresh t4 t5 t6
    by simp
qed


end
